theory Spec2Isabelle
  imports Complex_Main
begin

section \<open>Bedbug freezing time calculator: the interpolation function\<close>

text \<open>
  The development embeds \<^verbatim>\<open>interpolate_freezing_time\<close> of \<^verbatim>\<open>streamlit_app.py\<close>
  (the operation the specification calls \<^verbatim>\<open>estimate\<close>) together with the module-level
  dictionary \<^verbatim>\<open>data_points\<close> it reads.

  Numbers are mathematical reals: the rounding of IEEE doubles is not modelled. What is
  modelled of Python floats is the part the control flow of the function depends on:
  the three non-finite values and the way they compare. Where the function returns a
  value of the curve, the program returns the double that SciPy computes for it, which
  agrees with the real number of the model up to rounding only; at the anchors -4 and 0,
  for instance, the computed double need not be the anchor's duration itself.
\<close>

subsection \<open>Python floats and their comparisons\<close>

datatype pyfloat = Fin real | PInf | NInf | NaN

text \<open>\<^verbatim>\<open>a <= b\<close>: every comparison with NaN is false.\<close>

fun py_le :: "pyfloat \<Rightarrow> pyfloat \<Rightarrow> bool" where
  "py_le (Fin a) (Fin b) = (a \<le> b)"
| "py_le NaN _ = False"
| "py_le _ NaN = False"
| "py_le NInf _ = True"
| "py_le _ PInf = True"
| "py_le _ _ = False"

text \<open>\<^verbatim>\<open>a >= b\<close>.\<close>

definition py_ge :: "pyfloat \<Rightarrow> pyfloat \<Rightarrow> bool" where
  "py_ge a b = py_le b a"

text \<open>\<^verbatim>\<open>a > b\<close>.\<close>

fun py_gt :: "pyfloat \<Rightarrow> pyfloat \<Rightarrow> bool" where
  "py_gt (Fin a) (Fin b) = (a > b)"
| "py_gt NaN _ = False"
| "py_gt _ NaN = False"
| "py_gt NInf _ = False"
| "py_gt _ PInf = False"
| "py_gt PInf _ = True"
| "py_gt _ NInf = True"

text \<open>
  The builtin \<^verbatim>\<open>max(a, b)\<close> keeps its first argument unless the second compares
  strictly greater, so \<^verbatim>\<open>max(0, nan)\<close> is \<^verbatim>\<open>0\<close>.
\<close>

definition py_max :: "pyfloat \<Rightarrow> pyfloat \<Rightarrow> pyfloat" where
  "py_max a b = (if py_gt b a then b else a)"

subsection \<open>The module state\<close>

text \<open>
  The function reads the module-level dictionary \<^verbatim>\<open>data_points\<close>, a mutable object of
  the Python module. The state of the module is passed to the function explicitly and
  returned by it, so that what a call does to the dictionary is part of the model.
\<close>

text \<open>
  A dictionary is the list of its items in insertion order; the keys of a dictionary are
  distinct.
\<close>

type_synonym dict = "(int \<times> int) list"

record module_state =
  data_points :: dict

text \<open>The dictionary literal of lines 7 to 12.\<close>

definition module_init :: module_state where
  "module_init = \<lparr>data_points = [(32, 21), (-4, 2), (0, 4), (-15, 0)]\<rparr>"

datatype exn = KeyError | ValueError

text \<open>\<^verbatim>\<open>d[k]\<close> raises KeyError on a missing key.\<close>

definition subscript :: "dict \<Rightarrow> int \<Rightarrow> exn + int" where
  "subscript d k = (case map_of d k of None \<Rightarrow> Inl KeyError | Some v \<Rightarrow> Inr v)"

text \<open>The comprehension \<^verbatim>\<open>[d[t] for t in ts]\<close>: the first failing lookup aborts it.\<close>

fun subscript_all :: "dict \<Rightarrow> int list \<Rightarrow> exn + int list" where
  "subscript_all d [] = Inr []"
| "subscript_all d (t # ts) =
     (case subscript d t of
        Inl e \<Rightarrow> Inl e
      | Inr v \<Rightarrow> (case subscript_all d ts of Inl e \<Rightarrow> Inl e | Inr vs \<Rightarrow> Inr (v # vs)))"

text \<open>\<^verbatim>\<open>sorted(d.keys())\<close>.\<close>

definition sorted_keys :: "dict \<Rightarrow> int list" where
  "sorted_keys d = sort (map fst d)"

subsection \<open>The interpolant\<close>

text \<open>
  \<^verbatim>\<open>interp1d(temps, days, kind='cubic', fill_value='extrapolate')\<close> is a call into
  SciPy, which builds the interpolating cubic spline with not-a-knot end conditions
  (\<^verbatim>\<open>make_interp_spline\<close> with \<^verbatim>\<open>k=3\<close>). On four nodes both interior nodes carry a
  not-a-knot condition, so the three pieces are one and the same cubic: the cubic
  polynomial through the four points, and \<^verbatim>\<open>'extrapolate'\<close> continues that polynomial
  outside the nodes. It is written here in Newton's divided-difference form, and
  evaluated in exact arithmetic.
\<close>

definition newton_cubic ::
  "real \<Rightarrow> real \<Rightarrow> real \<Rightarrow> real \<Rightarrow> real \<Rightarrow> real \<Rightarrow> real \<Rightarrow> real \<Rightarrow> real \<Rightarrow> real" where
  "newton_cubic x0 x1 x2 x3 y0 y1 y2 y3 q =
     (let d01 = (y1 - y0) / (x1 - x0);
          d12 = (y2 - y1) / (x2 - x1);
          d23 = (y3 - y2) / (x3 - x2);
          d012 = (d12 - d01) / (x2 - x0);
          d123 = (d23 - d12) / (x3 - x1);
          d0123 = (d123 - d012) / (x3 - x0)
      in y0 + (q - x0) * (d01 + (q - x1) * (d012 + (q - x2) * d0123)))"

text \<open>
  The constructor, on the inputs the program gives it: four nodes in increasing order,
  as \<^verbatim>\<open>sorted\<close> leaves them. SciPy rejects fewer than four nodes, arrays of different
  lengths and repeated nodes. It would sort nodes that are out of order and build a
  piecewise spline on five or more nodes; neither happens in the program and neither is
  modelled: both are mapped to the error value, and no theorem below is about them.
\<close>

fun interp1d :: "real list \<Rightarrow> real list \<Rightarrow> exn + (real \<Rightarrow> real)" where
  "interp1d [x0, x1, x2, x3] [y0, y1, y2, y3] =
     (if x0 < x1 \<and> x1 < x2 \<and> x2 < x3
      then Inr (newton_cubic x0 x1 x2 x3 y0 y1 y2 y3)
      else Inl ValueError)"
| "interp1d _ _ = Inl ValueError"

text \<open>
  The call \<^verbatim>\<open>f(temp_f)\<close> followed by \<^verbatim>\<open>float(...)\<close>. The spline evaluates to NaN at
  NaN. The two infinities never reach this call, the threshold tests return before it;
  they are given the value NaN as well.
\<close>

fun spline_call :: "(real \<Rightarrow> real) \<Rightarrow> pyfloat \<Rightarrow> pyfloat" where
  "spline_call f (Fin q) = Fin (f q)"
| "spline_call f _ = NaN"

subsection \<open>The function\<close>

text \<open>
  The first component of the result is \<open>Inl\<close> of the exception when the call raises,
  \<open>Inr None\<close> for Python's \<^verbatim>\<open>None\<close> and \<open>Inr (Some v)\<close> for a number of days; the
  second is the module state after the call. The interpolant is built before the
  threshold tests, as in the source.
\<close>

definition interpolate_freezing_time ::
  "pyfloat \<Rightarrow> module_state \<Rightarrow> (exn + pyfloat option) \<times> module_state" where
  "interpolate_freezing_time temp_f s =
     (let temps = sorted_keys (data_points s) in
      case subscript_all (data_points s) temps of
        Inl e \<Rightarrow> (Inl e, s)
      | Inr days \<Rightarrow>
          (case interp1d (map real_of_int temps) (map real_of_int days) of
             Inl e \<Rightarrow> (Inl e, s)
           | Inr f \<Rightarrow>
               (if py_le temp_f (Fin (-15)) then Inr (Some (Fin 0))
                else if py_ge temp_f (Fin 32) then Inr None
                else Inr (Some (py_max (Fin 0) (spline_call f temp_f))), s)))"

text \<open>
  The operation the specification calls \<^verbatim>\<open>estimate\<close>: the value of a call in the state
  the module is loaded with.
\<close>

abbreviation estimate :: "pyfloat \<Rightarrow> exn + pyfloat option" where
  "estimate temp_f \<equiv> fst (interpolate_freezing_time temp_f module_init)"

text \<open>The curve that line 24 builds from the dictionary literal.\<close>

definition fitted_curve :: "real \<Rightarrow> real" where
  "fitted_curve = newton_cubic (-15) (-4) 0 32 0 2 4 21"

text \<open>
  The queries that pass both threshold tests and lie outside the span of the anchor
  temperatures, where the curve would be extrapolated.
\<close>

definition residual_extrapolation_zone :: "real set" where
  "residual_extrapolation_zone =
     {t. - 15 < t \<and> t < 32 \<and>
         (t < real_of_int (hd (sorted_keys (data_points module_init))) \<or>
          real_of_int (last (sorted_keys (data_points module_init))) < t)}"

subsection \<open>The not-a-knot conditions on the anchors\<close>

text \<open>
  What the spline constructor solves for on the four anchors, stated independently of
  \<open>newton_cubic\<close>: three cubic pieces, one per interval between neighbouring anchor
  temperatures, each given by its four coefficients. The pieces interpolate the anchors,
  and at both interior anchors they agree in value and in the first, second and third
  derivative (the third is the not-a-knot condition).
\<close>

type_synonym coeffs = "real \<times> real \<times> real \<times> real"

fun cubic :: "coeffs \<Rightarrow> real \<Rightarrow> real" where
  "cubic (a0, a1, a2, a3) q = a0 + a1 * q + a2 * q^2 + a3 * q^3"

fun cubic_d1 :: "coeffs \<Rightarrow> real \<Rightarrow> real" where
  "cubic_d1 (a0, a1, a2, a3) q = a1 + 2 * a2 * q + 3 * a3 * q^2"

fun cubic_d2 :: "coeffs \<Rightarrow> real \<Rightarrow> real" where
  "cubic_d2 (a0, a1, a2, a3) q = 2 * a2 + 6 * a3 * q"

fun cubic_d3 :: "coeffs \<Rightarrow> real \<Rightarrow> real" where
  "cubic_d3 (a0, a1, a2, a3) q = 6 * a3"

definition joins_smoothly :: "coeffs \<Rightarrow> coeffs \<Rightarrow> real \<Rightarrow> bool" where
  "joins_smoothly c c' x \<longleftrightarrow>
     cubic c x = cubic c' x \<and> cubic_d1 c x = cubic_d1 c' x \<and>
     cubic_d2 c x = cubic_d2 c' x \<and> cubic_d3 c x = cubic_d3 c' x"

definition not_a_knot_spline :: "coeffs \<Rightarrow> coeffs \<Rightarrow> coeffs \<Rightarrow> bool" where
  "not_a_knot_spline c0 c1 c2 \<longleftrightarrow>
     cubic c0 (- 15) = 0 \<and> cubic c0 (- 4) = 2 \<and>
     cubic c1 (- 4) = 2 \<and> cubic c1 0 = 4 \<and>
     cubic c2 0 = 4 \<and> cubic c2 32 = 21 \<and>
     joins_smoothly c0 c1 (- 4) \<and> joins_smoothly c1 c2 0"

section \<open>Basic facts\<close>

lemma temps_eq: "sorted_keys (data_points module_init) = [-15, -4, 0, 32]"
  by (simp add: sorted_keys_def module_init_def)

lemma days_eq:
  "subscript_all (data_points module_init) [-15, -4, 0, 32] = Inr [0, 2, 4, 21]"
  by (simp add: module_init_def subscript_def)

lemma interp1d_dataset:
  "interp1d (map real_of_int [-15, -4, 0, 32]) (map real_of_int [0, 2, 4, 21]) =
     Inr fitted_curve"
  by (simp add: fitted_curve_def)

lemma call_init:
  "interpolate_freezing_time temp_f module_init =
     (if py_le temp_f (Fin (-15)) then Inr (Some (Fin 0))
      else if py_ge temp_f (Fin 32) then Inr None
      else Inr (Some (py_max (Fin 0) (spline_call fitted_curve temp_f))), module_init)"
  unfolding interpolate_freezing_time_def temps_eq Let_def days_eq
  using interp1d_dataset by simp

lemma fitted_curve_poly:
  "fitted_curve q = (q + 15) * (2 / 11 + (q + 4) * (7 / 330 - q * (1289 / 2977920)))"
  by (simp add: fitted_curve_def newton_cubic_def Let_def)

lemma estimate_finite:
  "estimate (Fin t) =
     (if t \<le> - 15 then Inr (Some (Fin 0))
      else if 32 \<le> t then Inr None
      else Inr (Some (Fin (max 0 (fitted_curve t)))))"
  by (simp add: call_init py_ge_def py_max_def max_def)


lemma curve_10: "fitted_curve 10 = 141515 / 13536"
  by (simp add: fitted_curve_poly)

lemma span_init:
  "hd (sorted_keys (data_points module_init)) = - 15"
  "last (sorted_keys (data_points module_init)) = 32"
  by (simp_all add: temps_eq)

section \<open>The fitted curve is the not-a-knot spline of the anchors\<close>

text \<open>
  \<open>cubic_d1\<close>, \<open>cubic_d2\<close> and \<open>cubic_d3\<close> are the successive derivatives of a cubic.
\<close>

lemma cubic_has_derivative:
  "((\<lambda>q. cubic c q) has_field_derivative cubic_d1 c q) (at q)"
  "((\<lambda>q. cubic_d1 c q) has_field_derivative cubic_d2 c q) (at q)"
  "((\<lambda>q. cubic_d2 c q) has_field_derivative cubic_d3 c q) (at q)"
  by (cases c; auto intro!: derivative_eq_intros)+

text \<open>Two cubics that agree up to the third derivative at one point are the same.\<close>

lemma joins_smoothly_eq: "joins_smoothly c c' x \<Longrightarrow> c = c'"
proof (cases c; cases c')
  fix a0 a1 a2 a3 b0 b1 b2 b3
  assume j: "joins_smoothly c c' x"
    and c: "c = (a0, a1, a2, a3)" and c': "c' = (b0, b1, b2, b3)"
  from j have e3: "a3 = b3" by (simp add: joins_smoothly_def c c')
  from j e3 have e2: "a2 = b2" by (simp add: joins_smoothly_def c c')
  from j e3 e2 have e1: "a1 = b1" by (simp add: joins_smoothly_def c c')
  from j e3 e2 e1 have e0: "a0 = b0" by (simp add: joins_smoothly_def c c')
  show "c = c'" by (simp add: c c' e0 e1 e2 e3)
qed

text \<open>One cubic through the four anchors is the fitted curve.\<close>

lemma cubic_through_anchors:
  assumes "cubic c (- 15) = 0" "cubic c (- 4) = 2" "cubic c 0 = 4" "cubic c 32 = 21"
  shows "cubic c q = fitted_curve q"
proof (cases c)
  case (fields a0 a1 a2 a3)
  from assms have e0: "a0 = 4" by (simp add: fields)
  from assms have eqs: "a0 - 15 * a1 + 225 * a2 - 3375 * a3 = 0"
     "a0 - 4 * a1 + 16 * a2 - 64 * a3 = 2" "a0 + 32 * a1 + 1024 * a2 + 32768 * a3 = 21"
    by (simp_all add: fields)
  from eqs e0 have a3: "a3 = - (1289 / 2977920)" by linarith
  from eqs e0 a3 have a2: "a2 = 38677 / 2977920" by linarith
  from eqs e0 a3 a2 have a1: "a1 = 138691 / 248160" by linarith
  have "fitted_curve q =
          4 + 138691 / 248160 * q + 38677 / 2977920 * q^2 - 1289 / 2977920 * q^3"
    unfolding fitted_curve_poly power2_eq_square power3_eq_cube by (simp add: field_simps)
  then show ?thesis
    by (simp add: fields e0 a1 a2 a3)
qed

text \<open>
  Hence every solution of the not-a-knot conditions on the anchors consists of three
  times the same cubic, and that cubic is \<open>fitted_curve\<close>.
\<close>

lemma not_a_knot_is_fitted_curve:
  assumes "not_a_knot_spline c0 c1 c2"
  shows "c1 = c0" and "c2 = c0" and "cubic c0 q = fitted_curve q"
proof -
  from assms have j: "joins_smoothly c0 c1 (- 4)" "joins_smoothly c1 c2 0"
    by (simp_all add: not_a_knot_spline_def)
  from j(1) show 1: "c1 = c0" by (rule joins_smoothly_eq [symmetric])
  from j(2) have "c2 = c1" by (rule joins_smoothly_eq [symmetric])
  with 1 show 2: "c2 = c0" by simp
  from assms 1 2 show "cubic c0 q = fitted_curve q"
    by (intro cubic_through_anchors) (simp_all add: not_a_knot_spline_def)
qed

lemma not_a_knot_exists:
  "not_a_knot_spline
     (4, 138691 / 248160, 38677 / 2977920, - (1289 / 2977920))
     (4, 138691 / 248160, 38677 / 2977920, - (1289 / 2977920))
     (4, 138691 / 248160, 38677 / 2977920, - (1289 / 2977920))"
  by (simp add: not_a_knot_spline_def joins_smoothly_def power2_eq_square power3_eq_cube)

section \<open>The claims\<close>

subsection \<open>C1: the anchors\<close>




subsection \<open>C2: at or below the lower bound\<close>

text \<open>
  C2. For every real temperature less than or equal to -15, \<open>estimate\<close> returns a
  duration of exactly 0.
\<close>

theorem estimate_below_lower_bound:
  "t \<le> - 15 \<Longrightarrow> estimate (Fin t) = Inr (Some (Fin 0))"
  by (simp add: estimate_finite)

theorem estimate_below_lower_bound_witness:
  "(- 20 :: real) \<le> - 15 \<and> estimate (Fin (- 20)) = Inr (Some (Fin 0))"
  using estimate_below_lower_bound [of "- 20"] by simp

subsection \<open>C3: at or above the upper bound\<close>

text \<open>
  C3. For every real temperature greater than or equal to 32, \<open>estimate\<close> returns the
  "does not freeze" marker (Python's \<^verbatim>\<open>None\<close>), not a number.
\<close>

theorem estimate_above_upper_bound:
  "32 \<le> t \<Longrightarrow> estimate (Fin t) = Inr None"
  by (simp add: estimate_finite)

theorem estimate_above_upper_bound_witness:
  "(32 :: real) \<le> 40 \<and> estimate (Fin 40) = Inr None"
  using estimate_above_upper_bound [of 40] by simp

subsection \<open>C4: the clamp\<close>

text \<open>
  C4. For every real temperature strictly between -15 and 32, \<open>estimate\<close> returns the
  value of the fitted curve floored at 0, which is greater than or equal to 0. The
  witness is a temperature at which the curve itself is negative.
\<close>

theorem estimate_clamped:
  assumes "- 15 < t" and "t < 32"
  shows "estimate (Fin t) = Inr (Some (Fin (max 0 (fitted_curve t)))) \<and>
         0 \<le> max 0 (fitted_curve t)"
  using assms by (simp add: estimate_finite)

theorem estimate_clamped_witness:
  "(- 15 :: real) < - 14 \<and> (- 14 :: real) < 32 \<and> fitted_curve (- 14) < 0 \<and>
   estimate (Fin (- 14)) = Inr (Some (Fin 0))"
proof -
  have neg: "fitted_curve (- 14) < 0" by (simp add: fitted_curve_poly)
  show ?thesis using estimate_clamped [of "- 14"] neg by (simp add: max_def)
qed

subsection \<open>C5: queries that are not finite\<close>

text \<open>
  C5, as amended. A query that is not finite raises no error. Minus infinity passes the
  first threshold test and returns the duration 0; plus infinity passes the second and
  returns the marker; NaN fails both comparisons, the spline evaluates to NaN, and
  \<^verbatim>\<open>max(0, nan)\<close> returns 0.
\<close>

theorem estimate_nonfinite:
  "estimate NInf = Inr (Some (Fin 0)) \<and> estimate PInf = Inr None \<and>
   estimate NaN = Inr (Some (Fin 0))"
  by (simp add: call_init py_ge_def py_max_def)

text \<open>
  The claim as worded fails at minus infinity: the call does not raise, it returns a
  numeric duration.
\<close>

theorem estimate_nonfinite_counterexample:
  "\<not> isl (estimate NInf) \<and> estimate NInf = Inr (Some (Fin 0))"
  by (simp add: call_init)

subsection \<open>C6: the extrapolation zone\<close>

text \<open>
  C6, as amended. Every temperature strictly between -15 and 32 lies within the span of
  the anchor temperatures, whose least and greatest elements are the two thresholds
  themselves; for such a temperature \<open>estimate\<close> evaluates the fitted curve between
  its outermost anchors and floors it at 0.
\<close>

theorem curve_evaluated_inside_span:
  assumes "- 15 < t" and "t < 32"
  shows "real_of_int (hd (sorted_keys (data_points module_init))) \<le> t \<and>
         t \<le> real_of_int (last (sorted_keys (data_points module_init))) \<and>
         estimate (Fin t) = Inr (Some (Fin (max 0 (fitted_curve t))))"
  using assms by (simp add: span_init estimate_finite)

theorem curve_evaluated_inside_span_witness:
  "(- 15 :: real) < 10 \<and> (10 :: real) < 32 \<and>
   real_of_int (hd (sorted_keys (data_points module_init))) \<le> 10 \<and>
   (10 :: real) \<le> real_of_int (last (sorted_keys (data_points module_init))) \<and>
   estimate (Fin 10) = Inr (Some (Fin (max 0 (fitted_curve 10))))"
  using curve_evaluated_inside_span [of 10] by simp

text \<open>
  The claim as worded says that the residual extrapolation zone has elements. It has
  none.
\<close>

theorem residual_zone_counterexample: "residual_extrapolation_zone = {}"
  by (auto simp add: residual_extrapolation_zone_def span_init)

subsection \<open>C8: the estimate at 10\<close>

text \<open>
  C8. \<open>estimate 10\<close> returns a finite number \<open>v\<close> with \<open>0 \<le> v\<close> and \<open>v \<le> 21\<close>
  (in exact arithmetic it is 141515 / 13536, about 10.45).
\<close>

theorem estimate_10:
  "\<exists>v. estimate (Fin 10) = Inr (Some (Fin v)) \<and> 0 \<le> v \<and> v \<le> 21"
proof (intro exI conjI)
  show "estimate (Fin 10) = Inr (Some (Fin (141515 / 13536)))"
    by (simp add: estimate_finite curve_10)
qed simp_all

subsection \<open>C9: marker or number\<close>

text \<open>
  C9. For every finite real temperature, \<open>estimate\<close> returns the "does not freeze"
  marker if and only if the temperature is at least 32, and for every temperature
  strictly below 32 it returns a nonnegative real number: neither the marker nor an
  exception.
\<close>

theorem marker_iff:
  "(estimate (Fin t) = Inr None \<longleftrightarrow> 32 \<le> t) \<and>
   (t < 32 \<longrightarrow> (\<exists>v. estimate (Fin t) = Inr (Some (Fin v)) \<and> 0 \<le> v))"
  by (simp add: estimate_finite)

theorem marker_iff_witness:
  "(10 :: real) < 32 \<and> estimate (Fin 10) \<noteq> Inr None \<and>
   (\<exists>v. estimate (Fin 10) = Inr (Some (Fin v)) \<and> 0 \<le> v)"
  using marker_iff [of 10] by simp

end
